theory Spec2Isabelle
  imports Complex_Main
begin

section \<open>Python string primitives\<close>

text \<open>
  Python strings are modelled as \<open>string\<close>; a \<open>char\<close> stands for one code point
  below 256 (Latin-1). The built-ins \<open>str.strip()\<close>, \<open>str.split()\<close> and
  \<open>str.lower()\<close> used by \<open>cv_matcher.py\<close> are modelled on that range.
\<close>

definition whitespace_codes :: "nat list" where
  \<comment> \<open>the code points below 256 for which Python's \<open>str.isspace\<close> holds\<close>
  "whitespace_codes = [9, 10, 11, 12, 13, 28, 29, 30, 31, 32, 133, 160]"

definition is_space :: "char \<Rightarrow> bool" where
  "is_space c = (of_char c \<in> set whitespace_codes)"

definition non_space :: "char \<Rightarrow> bool" where
  "non_space c = (\<not> is_space c)"

definition strip_py :: "string \<Rightarrow> string" where
  \<comment> \<open>\<open>s.strip()\<close>: leading and trailing whitespace removed\<close>
  "strip_py s = rev (dropWhile is_space (rev (dropWhile is_space s)))"

function split_py :: "string \<Rightarrow> string list" where
  \<comment> \<open>\<open>s.split()\<close>: skip a run of whitespace, take the run of other characters, repeat\<close>
  "split_py s =
     (case dropWhile is_space s of
        [] \<Rightarrow> []
      | c # cs \<Rightarrow> takeWhile non_space (c # cs) # split_py (dropWhile non_space (c # cs)))"
  by pat_completeness auto
termination
proof (relation "measure length")
  show "wf (measure length)" by simp
next
  fix s :: string and c cs
  assume h: "dropWhile is_space s = c # cs"
  then have "non_space c"
    using hd_dropWhile [of is_space s] by (simp add: non_space_def)
  then have "length (dropWhile non_space (c # cs)) \<le> length cs"
    by (simp add: length_dropWhile_le)
  moreover have "length (c # cs) \<le> length s"
    using length_dropWhile_le [of is_space s] h by simp
  ultimately show "(dropWhile non_space (c # cs), s) \<in> measure length"
    by simp
qed

declare split_py.simps [simp del]

definition lower_char :: "char \<Rightarrow> char" where
  \<comment> \<open>A-Z and the Latin-1 capitals (all of 192..222 but the multiplication sign 215)\<close>
  "lower_char c =
     (let n = (of_char c :: nat) in
      if 65 \<le> n \<and> n \<le> 90 then char_of (n + 32)
      else if n = 215 then c
      else if 192 \<le> n \<and> n \<le> 222 then char_of (n + 32)
      else c)"

definition lower_py :: "string \<Rightarrow> string" where
  "lower_py s = map lower_char s"

fun join_py :: "string \<Rightarrow> string list \<Rightarrow> string" where
  \<comment> \<open>\<open>sep.join(xs)\<close>\<close>
  "join_py sep [] = []"
| "join_py sep [x] = x"
| "join_py sep (x # y # ys) = x @ sep @ join_py sep (y # ys)"

section \<open>Exceptions and the world outside the scorer\<close>

datatype exn =
  ValueError string | LookupError string | OpenAIError string | FloatingPointError string |
  Exception string

fun str_exn :: "exn \<Rightarrow> string" where
  \<comment> \<open>\<open>str(e)\<close>: the message of the exception\<close>
  "str_exn (ValueError m) = m"
| "str_exn (LookupError m) = m"
| "str_exn (OpenAIError m) = m"
| "str_exn (FloatingPointError m) = m"
| "str_exn (Exception m) = m"

text \<open>
  The NLTK stopwords corpus maps a file id to its word list. It is either installed
  (\<open>nltk_data\<close>) or not found, in which case every access raises \<open>LookupError\<close>;
  \<open>nltk_remote\<close> is what \<open>nltk.download('stopwords')\<close> would install, \<open>None\<close> when the
  download fails. \<open>embed_calls\<close> logs the texts handed to the embedding provider.
\<close>

type_synonym corpus = "string \<rightharpoonup> string list"

record world =
  nltk_data :: "corpus option"
  nltk_remote :: "corpus option"
  embed_calls :: "string list"

definition resource_not_found :: string where
  \<comment> \<open>stands for the text of NLTK's resource-not-found banner\<close>
  "resource_not_found = ''Resource stopwords not found.''"

definition nltk_download :: "world \<Rightarrow> world" where
  \<comment> \<open>\<open>nltk.download('stopwords', quiet=True)\<close>: installs the corpus when it can, never raises\<close>
  "nltk_download w =
     (case nltk_remote w of None \<Rightarrow> w | Some c \<Rightarrow> w\<lparr>nltk_data := Some c\<rparr>)"

definition corpus_words :: "corpus \<Rightarrow> string \<Rightarrow> string set" where
  \<comment> \<open>\<open>set(stopwords.words(language)) if language in stopwords.fileids() else set()\<close>\<close>
  "corpus_words c language = (case c language of Some ws \<Rightarrow> set ws | None \<Rightarrow> {})"

section \<open>cv_matcher.py\<close>

definition get_stopwords :: "world \<Rightarrow> string \<Rightarrow> (exn + string set) \<times> world" where
  "get_stopwords w language =
     (case nltk_data w of
        Some c \<Rightarrow> (Inr (corpus_words c language), w)
      | None \<Rightarrow>
          \<comment> \<open>\<open>except LookupError\<close>: download, then read the corpus again, unguarded\<close>
          (let w' = nltk_download w in
           case nltk_data w' of
             Some c \<Rightarrow> (Inr (corpus_words c language), w')
           | None \<Rightarrow> (Inl (LookupError resource_not_found), w')))"

definition preprocess_text :: "world \<Rightarrow> string \<Rightarrow> string \<Rightarrow> (exn + string) \<times> world" where
  "preprocess_text w text language =
     (case get_stopwords w language of
        (Inl e, w') \<Rightarrow> (Inl e, w')
      | (Inr stop_words, w') \<Rightarrow>
          (let words = split_py text;
               filtered_words = [word \<leftarrow> words. lower_py word \<notin> stop_words]
           in (Inr (join_py '' '' filtered_words), w')))"


subsection \<open>The supported-language table (supported_languages.py)\<close>

definition SUPPORTED_LANGUAGES :: "string \<rightharpoonup> string" where
  "SUPPORTED_LANGUAGES =
     [''en'' \<mapsto> ''English'', ''tr'' \<mapsto> ''Turkish'', ''de'' \<mapsto> ''German'',
      ''fr'' \<mapsto> ''French'', ''es'' \<mapsto> ''Spanish'', ''it'' \<mapsto> ''Italian'',
      ''nl'' \<mapsto> ''Dutch'']"

definition language_codes :: "string set" where
  \<comment> \<open>the keys of \<open>SUPPORTED_LANGUAGES\<close>\<close>
  "language_codes = {''en'', ''tr'', ''de'', ''fr'', ''es'', ''it'', ''nl''}"

definition get_language_name :: "string \<Rightarrow> string option" where
  \<comment> \<open>\<open>SUPPORTED_LANGUAGES.get(language_code, None)\<close>\<close>
  "get_language_name language_code = SUPPORTED_LANGUAGES language_code"

subsection \<open>Cosine similarity of two embedding rows\<close>

text \<open>
  An embedding is one row of numbers; components and scores are real numbers here, so
  the rounding of floating-point arithmetic is left out. \<open>cosine_similarity\<close> follows
  scikit-learn: both rows must have the same, positive number of features (otherwise
  \<open>ValueError\<close>), each row is divided by its L2 norm with a zero norm replaced by 1,
  and the result is the dot product of the two normalised rows.

  Division is kept observable: \<open>np_divide\<close> has no value for a zero divisor, where
  numpy would produce \<open>inf\<close> or \<open>nan\<close>, and \<open>cosine_similarity\<close> reports such a
  division as \<open>FloatingPointError\<close> (what numpy raises under \<open>seterr(all='raise')\<close>), so
  that the outcome of a division by zero can never pass for a score.
\<close>

type_synonym vector = "real list"

definition dot :: "vector \<Rightarrow> vector \<Rightarrow> real" where
  "dot x y = sum_list (map2 (*) x y)"

definition row_norm :: "vector \<Rightarrow> real" where
  "row_norm x = sqrt (dot x x)"

definition handle_zeros_in_scale :: "real \<Rightarrow> real" where
  "handle_zeros_in_scale n = (if n = 0 then 1 else n)"

definition np_divide :: "real \<Rightarrow> real \<Rightarrow> real option" where
  "np_divide v n = (if n = 0 then None else Some (v / n))"

fun divide_row :: "vector \<Rightarrow> real \<Rightarrow> vector option" where
  \<comment> \<open>\<open>X /= norms[:, np.newaxis]\<close> on one row\<close>
  "divide_row [] n = Some []"
| "divide_row (v # vs) n =
     (case np_divide v n of
        None \<Rightarrow> None
      | Some q \<Rightarrow> (case divide_row vs n of None \<Rightarrow> None | Some qs \<Rightarrow> Some (q # qs)))"

definition normalize :: "vector \<Rightarrow> vector option" where
  "normalize x = divide_row x (handle_zeros_in_scale (row_norm x))"

definition division_by_zero_message :: string where
  "division_by_zero_message = ''divide by zero encountered in divide''"

definition cosine_similarity :: "vector \<Rightarrow> vector \<Rightarrow> exn + real" where
  "cosine_similarity x y =
     (if length x = 0 \<or> length y = 0
        then Inl (ValueError ''Found array with 0 feature(s)'')
      else if length x \<noteq> length y
        then Inl (ValueError ''Incompatible dimension for X and Y matrices'')
      else
        (case normalize x of
           None \<Rightarrow> Inl (FloatingPointError division_by_zero_message)
         | Some x_normalized \<Rightarrow>
             (case normalize y of
                None \<Rightarrow> Inl (FloatingPointError division_by_zero_message)
              | Some y_normalized \<Rightarrow> Inr (dot x_normalized y_normalized))))"

text \<open>
  The row that \<open>normalize\<close> returns once its divisions are known to succeed; used to
  state the facts about \<open>cosine_similarity\<close>.
\<close>

definition unit_row :: "vector \<Rightarrow> vector" where
  "unit_row x = map (\<lambda>v. v / handle_zeros_in_scale (row_norm x)) x"

subsection \<open>The scorer\<close>

type_synonym embedder = "string \<Rightarrow> exn + vector"

definition call_embed :: "embedder \<Rightarrow> world \<Rightarrow> string \<Rightarrow> (exn + vector) \<times> world" where
  \<comment> \<open>\<open>embed([text]).numpy()\<close>: one call of the provider, logged\<close>
  "call_embed embed_py w text = (embed_py text, w\<lparr>embed_calls := embed_calls w @ [text]\<rparr>)"

definition similarity_body ::
  "embedder \<Rightarrow> world \<Rightarrow> string \<Rightarrow> string \<Rightarrow> string \<Rightarrow> (exn + real) \<times> world" where
  \<comment> \<open>the statements inside \<open>try:\<close>\<close>
  "similarity_body embed_py w job_description cv_text language =
     (case preprocess_text w job_description language of
        (Inl e, w1) \<Rightarrow> (Inl e, w1)
      | (Inr job_clean, w1) \<Rightarrow>
     (case preprocess_text w1 cv_text language of
        (Inl e, w2) \<Rightarrow> (Inl e, w2)
      | (Inr cv_clean, w2) \<Rightarrow>
     (case call_embed embed_py w2 job_clean of
        (Inl e, w3) \<Rightarrow> (Inl e, w3)
      | (Inr job_vector, w3) \<Rightarrow>
     (case call_embed embed_py w3 cv_clean of
        (Inl e, w4) \<Rightarrow> (Inl e, w4)
      | (Inr cv_vector, w4) \<Rightarrow>
     (case cosine_similarity job_vector cv_vector of
        Inl e \<Rightarrow> (Inl e, w4)
      | Inr similarity \<Rightarrow> (Inr similarity, w4))))))"

text \<open>
  The last three statements of the \<open>try\<close> block on two cleaned texts: both calls of
  the provider, then the cosine. Used to state what \<open>similarity_body\<close> computes once
  the stopwords are known.
\<close>

definition embed_pair ::
  "embedder \<Rightarrow> world \<Rightarrow> string \<Rightarrow> string \<Rightarrow> (exn + real) \<times> world" where
  "embed_pair embed_py w job_clean cv_clean =
     (case embed_py job_clean of
        Inl e \<Rightarrow> (Inl e, w\<lparr>embed_calls := embed_calls w @ [job_clean]\<rparr>)
      | Inr job_vector \<Rightarrow>
          (case embed_py cv_clean of
             Inl e \<Rightarrow> (Inl e, w\<lparr>embed_calls := embed_calls w @ [job_clean, cv_clean]\<rparr>)
           | Inr cv_vector \<Rightarrow>
               (cosine_similarity job_vector cv_vector,
                w\<lparr>embed_calls := embed_calls w @ [job_clean, cv_clean]\<rparr>)))"

definition empty_text_message :: string where
  "empty_text_message = ''Job description and CV text cannot be empty.''"

definition unsupported_language_message :: "string \<Rightarrow> string" where
  \<comment> \<open>\<open>f"Unsupported language: {language}"\<close>\<close>
  "unsupported_language_message language = ''Unsupported language: '' @ language"

definition scoring_error_message :: "exn \<Rightarrow> string" where
  \<comment> \<open>\<open>f"Error computing similarity score: {str(e)}"\<close>\<close>
  "scoring_error_message e = ''Error computing similarity score: '' @ str_exn e"

definition compute_similarity_score ::
  "embedder \<Rightarrow> world \<Rightarrow> string \<Rightarrow> string \<Rightarrow> string \<Rightarrow> (exn + real) \<times> world" where
  "compute_similarity_score embed_py w job_description cv_text language =
     (if strip_py job_description = [] \<or> strip_py cv_text = []
        then (Inl (ValueError empty_text_message), w)
      else if SUPPORTED_LANGUAGES language = None
        then (Inl (ValueError (unsupported_language_message language)), w)
      else
        (case similarity_body embed_py w job_description cv_text language of
           (Inl e, w') \<Rightarrow>
             (Inl (Exception (scoring_error_message e)), w')
         | (Inr similarity, w') \<Rightarrow> (Inr similarity, w')))"


definition evaluation_prompt :: "string \<Rightarrow> string \<Rightarrow> string \<Rightarrow> string" where
  "evaluation_prompt job_description cv_text language =
     ''As an HR manager, you are tasked with evaluating how well a candidate's '' @
     ''CV matches the job description provided. Conduct a thorough analysis and '' @
     ''provide feedback on:'' @ [CHR 0x0A, CHR 0x0A] @
     ''1. Key strengths that align well with the job requirements.'' @ [CHR 0x0A] @
     ''2. Areas where the candidate may lack the necessary qualifications or '' @
     ''experience.'' @ [CHR 0x0A] @
     ''3. A final recommendation on the candidate's suitability for the position.'' @
     [CHR 0x0A, CHR 0x0A] @
     ''Please deliver your evaluation in '' @ language @ ''.'' @ [CHR 0x0A, CHR 0x0A] @
     ''Job Description:'' @ [CHR 0x0A] @ job_description @ [CHR 0x0A, CHR 0x0A] @
     ''CV Content:'' @ [CHR 0x0A] @ cv_text"

type_synonym chat = "string \<Rightarrow> string \<Rightarrow> exn + string"

definition evaluate_cv_with_openai ::
  "chat \<Rightarrow> string \<Rightarrow> string \<Rightarrow> string \<Rightarrow> exn + string" where
  \<comment> \<open>\<open>chat system user\<close> is the content of the first choice of the completion, or what
      the call raises; only \<open>OpenAIError\<close> is caught and wrapped\<close>
  "evaluate_cv_with_openai chat_completion job_description cv_text language =
     (case chat_completion
             (''Provide a detailed professional evaluation in '' @ language @ ''.'')
             (evaluation_prompt job_description cv_text language) of
        Inl (OpenAIError m) \<Rightarrow> Inl (Exception (''OpenAI API Error: '' @ m))
      | Inl e \<Rightarrow> Inl e
      | Inr content \<Rightarrow> Inr (strip_py content))"

section \<open>routes.py: the route /evaluate_cv_match\<close>

text \<open>
  The request carries the \<open>X-API-KEY\<close> header, two form fields and an uploaded file. An
  uploaded file with an empty file name is falsy, as werkzeug's \<open>FileStorage\<close> is.

  What the route reaches outside the repository's sources is a parameter: the
  embedding provider, the chat completion, the \<open>API_KEY\<close> of the environment, the
  decision of the rate limiter for this request (\<open>app/utils/rate/rate_limiter.py\<close> and
  Flask-Limiter decide it), the exception, if any, of storing the upload
  (\<open>ensure_directory_exists\<close>, \<open>TemporaryDirectory\<close>, \<open>save_temporary_file\<close>), and the
  three readers of \<open>document_extraction.py\<close>, from the bytes of the file to its text.

  The route answers with a response and leaves the lines it wrote with \<open>app.logger\<close>.
\<close>

record upload =
  filename :: string
  file_bytes :: string

record request =
  header_x_api_key :: "string option"
  form_job_description :: "string option"
  form_language :: "string option"
  files_cv_file :: "upload option"

record services =
  embed_model :: embedder
  chat_model :: chat
  API_KEY :: "string option"
  limit_exceeded :: bool
  save_upload :: "upload \<Rightarrow> exn option"
  read_pdf :: "string \<Rightarrow> exn + string"
  read_docx :: "string \<Rightarrow> exn + string"
  read_txt :: "string \<Rightarrow> exn + string"

datatype body = ErrorJson string | MatchJson real string | TooManyRequests

type_synonym response = "body \<times> nat"

datatype level = INFO | WARNING | ERROR

type_synonym log = "(level \<times> string) list"

record outcome =
  answer :: response
  app_log :: log
  world_after :: world

subsection \<open>file_management.py and document_extraction.py\<close>

definition get_file_suffix :: "string \<Rightarrow> string" where
  \<comment> \<open>\<open>os.path.splitext(filename)[-1]\<close> with \<open>/\<close> as separator: from the last dot of the
      last path component, unless only dots precede it\<close>
  "get_file_suffix name =
     (let base = rev (takeWhile (\<lambda>c. c \<noteq> CHR ''/'') (rev name));
          after_dot = takeWhile (\<lambda>c. c \<noteq> CHR ''.'') (rev base);
          before_dot = drop (Suc (length after_dot)) (rev base)
      in if CHR ''.'' \<in> set base
         then (if list_all (\<lambda>c. c = CHR ''.'') before_dot then []
               else CHR ''.'' # rev after_dot)
         else [])"

definition extract_text :: "services \<Rightarrow> upload \<Rightarrow> exn + string" where
  \<comment> \<open>the stored file keeps the suffix of the uploaded file name\<close>
  "extract_text sv f =
     (let file_extension = lower_py (get_file_suffix (filename f)) in
      if file_extension = ''.pdf'' then read_pdf sv (file_bytes f)
      else if file_extension = ''.docx'' then read_docx sv (file_bytes f)
      else if file_extension = ''.txt'' then read_txt sv (file_bytes f)
      else Inl (ValueError ''Unsupported file format.''))"

definition save_and_extract :: "services \<Rightarrow> upload \<Rightarrow> exn + string" where
  \<comment> \<open>\<open>temp_file_path = save_temporary_file(cv_file, temp_dir)\<close>, then
      \<open>extract_text(temp_file_path)\<close>\<close>
  "save_and_extract sv f =
     (case save_upload sv f of Some e \<Rightarrow> Inl e | None \<Rightarrow> extract_text sv f)"

subsection \<open>The handler\<close>

definition required_fields_response :: response where
  "required_fields_response = (ErrorJson ''CV file and job description are required.'', 400)"

definition unsupported_language_response :: response where
  "unsupported_language_response =
     (ErrorJson ''Unsupported language. Choose from ['en', 'tr', 'de', 'fr', 'es', 'it', 'nl'].'',
      400)"

definition internal_error_response :: response where
  "internal_error_response = (ErrorJson ''Internal server error.'', 500)"

definition processing_line :: "level \<times> string" where
  "processing_line = (INFO, ''Processing CV and job description similarity evaluation.'')"

definition missing_line :: "level \<times> string" where
  "missing_line = (WARNING, ''Missing CV file or job description.'')"

definition extracted_line :: "level \<times> string" where
  "extracted_line = (INFO, ''CV text extracted successfully.'')"

definition unsupported_line :: "string option \<Rightarrow> level \<times> string" where
  \<comment> \<open>\<open>f"Unsupported language: {language}"\<close>, \<open>language\<close> being \<open>None\<close> or a name\<close>
  "unsupported_line language =
     (ERROR, ''Unsupported language: '' @ (case language of None \<Rightarrow> ''None'' | Some n \<Rightarrow> n))"

definition internal_error_line :: "exn \<Rightarrow> level \<times> string" where
  \<comment> \<open>\<open>f"Internal Server Error: {str(e)}"\<close>\<close>
  "internal_error_line e = (ERROR, ''Internal Server Error: '' @ str_exn e)"

definition internal_error :: "log \<Rightarrow> exn \<Rightarrow> world \<Rightarrow> outcome" where
  \<comment> \<open>the \<open>except Exception as e\<close> clause of the handler\<close>
  "internal_error lines e w =
     \<lparr>answer = internal_error_response, app_log = lines @ [internal_error_line e],
      world_after = w\<rparr>"

definition py_round2 :: "real \<Rightarrow> real" where
  \<comment> \<open>\<open>round(x, 2)\<close> on real numbers: to the nearest hundredth, ties to even\<close>
  "py_round2 x =
     (let s = x * 100; f = \<lfloor>s\<rfloor>; d = s - of_int f in
      (if d < 1 / 2 then of_int f
       else if 1 / 2 < d then of_int (f + 1)
       else if even f then of_int f else of_int (f + 1)) / 100)"

definition missing_fields :: "request \<Rightarrow> bool" where
  \<comment> \<open>\<open>not cv_file or not job_description\<close>\<close>
  "missing_fields req =
     ((case files_cv_file req of None \<Rightarrow> True | Some f \<Rightarrow> filename f = []) \<or>
      (case form_job_description req of None \<Rightarrow> True | Some jd \<Rightarrow> jd = []))"

definition required_fields :: "world \<Rightarrow> outcome" where
  "required_fields w =
     \<lparr>answer = required_fields_response, app_log = [processing_line, missing_line],
      world_after = w\<rparr>"

definition evaluate_cv_match_endpoint :: "services \<Rightarrow> world \<Rightarrow> request \<Rightarrow> outcome" where
  "evaluate_cv_match_endpoint sv w req =
     (let job_description = form_job_description req;
          language = lower_py (case form_language req of None \<Rightarrow> ''en'' | Some l \<Rightarrow> l);
          cv_file = files_cv_file req
      in
      \<comment> \<open>\<open>if not cv_file or not job_description\<close>\<close>
      (case cv_file of
        None \<Rightarrow> required_fields w
      | Some f \<Rightarrow>
      (if filename f = [] then required_fields w
       else
      (case job_description of
        None \<Rightarrow> required_fields w
      | Some jd \<Rightarrow>
      (if jd = [] then required_fields w
       else
      (case save_and_extract sv f of
        Inl e \<Rightarrow> internal_error [processing_line] e w
      | Inr cv_text \<Rightarrow>
      (case compute_similarity_score (embed_model sv) w jd cv_text language of
        (Inl e, w') \<Rightarrow> internal_error [processing_line, extracted_line] e w'
      | (Inr similarity_score, w') \<Rightarrow>
      \<comment> \<open>\<open>language = get_language_name(language); if not language\<close>\<close>
      (case get_language_name language of
        None \<Rightarrow>
          \<lparr>answer = unsupported_language_response,
           app_log = [processing_line, extracted_line, unsupported_line None],
           world_after = w'\<rparr>
      | Some name \<Rightarrow>
      (if name = [] then
          \<lparr>answer = unsupported_language_response,
           app_log = [processing_line, extracted_line, unsupported_line (Some name)],
           world_after = w'\<rparr>
       else
      (case evaluate_cv_with_openai (chat_model sv) jd cv_text name of
        Inl e \<Rightarrow> internal_error [processing_line, extracted_line] e w'
      | Inr evaluation \<Rightarrow>
          \<lparr>answer = (MatchJson (py_round2 similarity_score) evaluation, 200),
           app_log = [processing_line, extracted_line],
           world_after = w'\<rparr>))))))))))"

subsection \<open>The decorators of the route\<close>

definition missing_api_key_response :: response where
  "missing_api_key_response = (ErrorJson ''Missing API Key'', 401)"

definition invalid_api_key_response :: response where
  "invalid_api_key_response = (ErrorJson ''Invalid API Key'', 401)"

definition too_many_requests_response :: response where
  "too_many_requests_response = (TooManyRequests, 429)"

definition rejected :: "response \<Rightarrow> world \<Rightarrow> outcome" where
  "rejected r w = \<lparr>answer = r, app_log = [], world_after = w\<rparr>"

definition limited :: "services \<Rightarrow> world \<Rightarrow> request \<Rightarrow> outcome" where
  \<comment> \<open>\<open>@limiter.limit(RATE_LIMIT)\<close> around the handler\<close>
  "limited sv w req =
     (if limit_exceeded sv then rejected too_many_requests_response w
      else evaluate_cv_match_endpoint sv w req)"

definition evaluate_cv_match_route :: "services \<Rightarrow> world \<Rightarrow> request \<Rightarrow> outcome" where
  \<comment> \<open>\<open>@api_key_required\<close> (auth.py) around the rate-limited handler\<close>
  "evaluate_cv_match_route sv w req =
     (case header_x_api_key req of
        None \<Rightarrow> rejected missing_api_key_response w
      | Some api_key \<Rightarrow>
          if api_key = [] then rejected missing_api_key_response w
          else if Some api_key \<noteq> API_KEY sv then rejected invalid_api_key_response w
          else limited sv w req)"

text \<open>
  The handler from the scoring step on, for a job description, an extracted CV text and
  the lowercased language code. Used to state what the handler does once the fields are
  present and the text is extracted.
\<close>

definition after_extract ::
  "services \<Rightarrow> world \<Rightarrow> string \<Rightarrow> string \<Rightarrow> string \<Rightarrow> outcome" where
  "after_extract sv w jd cv_text language =
     (case compute_similarity_score (embed_model sv) w jd cv_text language of
        (Inl e, w') \<Rightarrow> internal_error [processing_line, extracted_line] e w'
      | (Inr similarity_score, w') \<Rightarrow>
      (case get_language_name language of
        None \<Rightarrow>
          \<lparr>answer = unsupported_language_response,
           app_log = [processing_line, extracted_line, unsupported_line None],
           world_after = w'\<rparr>
      | Some name \<Rightarrow>
      (if name = [] then
          \<lparr>answer = unsupported_language_response,
           app_log = [processing_line, extracted_line, unsupported_line (Some name)],
           world_after = w'\<rparr>
       else
      (case evaluate_cv_with_openai (chat_model sv) jd cv_text name of
        Inl e \<Rightarrow> internal_error [processing_line, extracted_line] e w'
      | Inr evaluation \<Rightarrow>
          \<lparr>answer = (MatchJson (py_round2 similarity_score) evaluation, 200),
           app_log = [processing_line, extracted_line],
           world_after = w'\<rparr>))))"

section \<open>The cleaned text in the words of the specification\<close>

text \<open>
  Splitting on whitespace: cut the text at every whitespace character and keep the
  pieces that are not empty. Dropping: keep the tokens whose lowercased form is not a
  stopword. Rejoining: the first token, then every other one after a single space.
\<close>

fun pieces :: "string \<Rightarrow> string list" where
  "pieces [] = [[]]"
| "pieces (c # cs) =
     (if is_space c then [] # pieces cs
      else (case pieces cs of [] \<Rightarrow> [[c]] | p # ps \<Rightarrow> (c # p) # ps))"

definition tokens_spec :: "string \<Rightarrow> string list" where
  "tokens_spec text = filter (\<lambda>p. p \<noteq> []) (pieces text)"

definition join_single_spaces :: "string list \<Rightarrow> string" where
  "join_single_spaces ts =
     (case ts of [] \<Rightarrow> [] | t # rest \<Rightarrow> t @ concat (map (\<lambda>u. CHR '' '' # u) rest))"

definition cleaned_text_spec :: "string set \<Rightarrow> string \<Rightarrow> string" where
  "cleaned_text_spec stop text =
     join_single_spaces (filter (\<lambda>t. lower_py t \<notin> stop) (tokens_spec text))"


section \<open>Concrete worlds and embedding providers\<close>

text \<open>Small inputs on which the definitions above are evaluated.\<close>

definition english_corpus :: corpus where
  "english_corpus = [''english'' \<mapsto> [''the'', ''a'', ''on'']]"

definition coded_corpus :: corpus where
  "coded_corpus = [''en'' \<mapsto> [''the'', ''a'', ''on'']]"

definition installed_world :: world where
  "installed_world = \<lparr>nltk_data = Some english_corpus, nltk_remote = None, embed_calls = []\<rparr>"

definition coded_world :: world where
  "coded_world = \<lparr>nltk_data = Some coded_corpus, nltk_remote = None, embed_calls = []\<rparr>"

definition fresh_world :: world where
  \<comment> \<open>no corpus on disk yet, the download works\<close>
  "fresh_world = \<lparr>nltk_data = None, nltk_remote = Some english_corpus, embed_calls = []\<rparr>"

definition offline_world :: world where
  \<comment> \<open>no corpus on disk, the download fails\<close>
  "offline_world = \<lparr>nltk_data = None, nltk_remote = None, embed_calls = []\<rparr>"

definition zero_embed :: embedder where
  "zero_embed text = Inr [0, 0]"

definition origin_embed :: embedder where
  \<comment> \<open>the empty text sits at the origin\<close>
  "origin_embed text = (if text = [] then Inr [0, 0] else Inr [1, 0])"

definition opposite_embed :: embedder where
  "opposite_embed text = (if text = ''Python'' then Inr [1] else Inr [- 1])"

definition axis_embed :: embedder where
  "axis_embed text = (if text = ''Python'' then Inr [1, 0] else Inr [0, 1])"


definition failing_embed :: embedder where
  "failing_embed text = Inl (Exception ''model unavailable'')"

definition example_services :: services where
  "example_services =
     \<lparr>embed_model = zero_embed,
      chat_model = (\<lambda>system_message user_message. Inr ''A good match.''),
      API_KEY = Some ''secret'',
      limit_exceeded = False,
      save_upload = (\<lambda>f. None),
      read_pdf = (\<lambda>bytes. Inr bytes),
      read_docx = (\<lambda>bytes. Inr bytes),
      read_txt = (\<lambda>bytes. Inr bytes)\<rparr>"

definition request_without_file :: request where
  "request_without_file =
     \<lparr>header_x_api_key = Some ''secret'',
      form_job_description = Some ''Java'', form_language = Some ''xx'',
      files_cv_file = None\<rparr>"

definition request_with_file :: request where
  "request_with_file =
     \<lparr>header_x_api_key = Some ''secret'',
      form_job_description = Some ''Java'', form_language = Some ''XX'',
      files_cv_file = Some \<lparr>filename = ''cv.txt'', file_bytes = ''Python''\<rparr>\<rparr>"

definition request_with_picture :: request where
  "request_with_picture =
     \<lparr>header_x_api_key = Some ''secret'',
      form_job_description = Some ''Java'', form_language = Some ''xx'',
      files_cv_file = Some \<lparr>filename = ''cv.png'', file_bytes = ''Python''\<rparr>\<rparr>"

section \<open>Facts about the string primitives\<close>

lemma strip_py_Nil_iff: "strip_py s = [] \<longleftrightarrow> list_all is_space s"
proof
  assume "strip_py s = []"
  then have a: "\<forall>c \<in> set (dropWhile is_space s). is_space c"
    by (simp add: strip_py_def)
  show "list_all is_space s"
  proof (cases "dropWhile is_space s")
    case Nil
    then show ?thesis by (simp add: list_all_iff)
  next
    case (Cons c cs)
    then have "\<not> is_space c" using hd_dropWhile [of is_space s] by simp
    moreover have "is_space c" using a Cons by simp
    ultimately show ?thesis by simp
  qed
next
  assume "list_all is_space s"
  then have "dropWhile is_space s = []" by (simp add: list_all_iff)
  then show "strip_py s = []" by (simp add: strip_py_def del: dropWhile_eq_Nil_conv)
qed

lemma split_py_Nil: "split_py [] = []"
  by (simp add: split_py.simps)

lemma split_py_space: "is_space c \<Longrightarrow> split_py (c # cs) = split_py cs"
  using split_py.simps [of "c # cs"] split_py.simps [of cs] by simp

lemma split_py_token:
  "\<not> is_space c \<Longrightarrow>
   split_py (c # cs) = (c # takeWhile non_space cs) # split_py (dropWhile non_space cs)"
  using split_py.simps [of "c # cs"] by (simp add: non_space_def)

lemma pieces_not_Nil: "pieces s \<noteq> []"
  by (induction s) (auto split: list.splits)

lemma tokens_spec_Nil: "tokens_spec [] = []"
  by (simp add: tokens_spec_def)

lemma tokens_spec_space: "is_space c \<Longrightarrow> tokens_spec (c # cs) = tokens_spec cs"
  by (simp add: tokens_spec_def)

lemma pieces_run:
  "pieces s = takeWhile non_space s #
     (case dropWhile non_space s of [] \<Rightarrow> [] | d # r \<Rightarrow> pieces r)"
proof (induction s)
  case Nil
  show ?case by simp
next
  case (Cons c cs)
  show ?case
  proof (cases "is_space c")
    case True
    then show ?thesis by (simp add: non_space_def)
  next
    case False
    then show ?thesis
      using Cons by (simp add: non_space_def split: list.splits)
  qed
qed

lemma tokens_spec_token:
  assumes "\<not> is_space c"
  shows "tokens_spec (c # cs) = (c # takeWhile non_space cs) # tokens_spec (dropWhile non_space cs)"
proof (cases "dropWhile non_space cs")
  case Nil
  then show ?thesis
    using assms pieces_run [of "c # cs"]
    by (simp add: tokens_spec_def non_space_def del: dropWhile_eq_Nil_conv)
next
  case (Cons d r)
  then have "is_space d"
    using hd_dropWhile [of non_space cs] by (simp add: non_space_def)
  then show ?thesis
    using assms Cons pieces_run [of "c # cs"]
    by (simp add: tokens_spec_def non_space_def)
qed

lemma split_py_tokens_spec: "split_py s = tokens_spec s"
proof (induction s rule: length_induct)
  case (1 s)
  show ?case
  proof (cases s)
    case Nil
    then show ?thesis by (simp add: split_py_Nil tokens_spec_Nil)
  next
    case (Cons c cs)
    show ?thesis
    proof (cases "is_space c")
      case True
      then show ?thesis using 1 Cons by (simp add: split_py_space tokens_spec_space)
    next
      case False
      have "length (dropWhile non_space cs) < length s"
        using Cons length_dropWhile_le [of non_space cs] by simp
      then have "split_py (dropWhile non_space cs) = tokens_spec (dropWhile non_space cs)"
        using 1 by blast
      then show ?thesis using False Cons by (simp add: split_py_token tokens_spec_token)
    qed
  qed
qed

lemma join_py_single_spaces: "join_py '' '' ts = join_single_spaces ts"
  by (induction "'' ''" ts rule: join_py.induct) (simp_all add: join_single_spaces_def)


lemma split_py_tokens:
  "t \<in> set (split_py s) \<Longrightarrow> t \<noteq> [] \<and> list_all non_space t"
proof (induction s rule: length_induct)
  case (1 s)
  show ?case
  proof (cases s)
    case Nil
    then show ?thesis using 1 by (simp add: split_py_Nil)
  next
    case (Cons c cs)
    show ?thesis
    proof (cases "is_space c")
      case True
      then have "t \<in> set (split_py cs)" using 1(2) Cons by (simp add: split_py_space)
      moreover have "length cs < length s" using Cons by simp
      ultimately show ?thesis using 1(1) by blast
    next
      case False
      have len: "length (dropWhile non_space cs) < length s"
        using Cons length_dropWhile_le [of non_space cs] by simp
      have "t = c # takeWhile non_space cs \<or> t \<in> set (split_py (dropWhile non_space cs))"
        using 1(2) False Cons by (simp add: split_py_token)
      then show ?thesis
      proof
        assume "t = c # takeWhile non_space cs"
        then show ?thesis
          using False by (auto simp: non_space_def list_all_iff dest: set_takeWhileD)
      next
        assume "t \<in> set (split_py (dropWhile non_space cs))"
        then show ?thesis using 1(1) len by blast
      qed
    qed
  qed
qed

lemma split_py_one_token:
  assumes "t \<noteq> []" and "list_all non_space t"
  shows "split_py t = [t]"
proof -
  obtain c cs where t: "t = c # cs" using assms(1) by (cases t) auto
  then have "\<not> is_space c" and all: "\<forall>x\<in>set cs. non_space x"
    using assms(2) by (simp_all add: non_space_def list_all_iff)
  moreover have "takeWhile non_space cs = cs" "dropWhile non_space cs = []"
    using all by simp_all
  ultimately show ?thesis
    using t by (simp add: split_py_token split_py_Nil del: takeWhile_eq_all_conv dropWhile_eq_Nil_conv)
qed

lemma split_py_token_space:
  assumes "t \<noteq> []" and "list_all non_space t"
  shows "split_py (t @ CHR '' '' # r) = t # split_py r"
proof -
  obtain c cs where t: "t = c # cs" using assms(1) by (cases t) auto
  then have c: "\<not> is_space c" and all: "\<And>x. x \<in> set cs \<Longrightarrow> non_space x"
    using assms(2) by (simp_all add: non_space_def list_all_iff)
  have sp: "is_space CHR '' ''"
    by (simp add: is_space_def whitespace_codes_def)
  have "takeWhile non_space (cs @ CHR '' '' # r) = cs"
    using all sp by (simp add: non_space_def)
  moreover have "dropWhile non_space (cs @ CHR '' '' # r) = CHR '' '' # r"
    using all sp by (simp add: non_space_def)
  ultimately show ?thesis
    using t c sp by (simp add: split_py_token split_py_space)
qed

lemma split_py_join_py:
  "\<forall>t\<in>set ts. t \<noteq> [] \<and> list_all non_space t \<Longrightarrow> split_py (join_py '' '' ts) = ts"
proof (induction "'' ''" ts rule: join_py.induct)
  case 1
  show ?case by (simp add: split_py_Nil)
next
  case (2 x)
  then show ?case by (simp add: split_py_one_token)
next
  case (3 x y ys)
  then show ?case by (simp add: split_py_token_space)
qed

lemma split_py_cleaned:
  "split_py (join_py '' '' (filter P (split_py text))) = filter P (split_py text)"
  by (rule split_py_join_py) (auto dest: split_py_tokens)

lemma preprocess_text_unfold:
  "preprocess_text w text language =
     (case get_stopwords w language of
        (Inl e, w') \<Rightarrow> (Inl e, w')
      | (Inr stop_words, w') \<Rightarrow> (Inr (cleaned_text_spec stop_words text), w'))"
  by (simp add: preprocess_text_def cleaned_text_spec_def split_py_tokens_spec
      join_py_single_spaces split: prod.splits sum.splits)


section \<open>Preprocessing\<close>

text \<open>
  C1. Whenever the stopword set is obtained, the text returned by \<open>preprocess_text\<close> is
  the cleaned text of the specification: the text split on whitespace, without the
  tokens whose lowercased form is a stopword, rejoined with single spaces. Splitting
  the result again gives back exactly the retained tokens, unchanged and in their
  original order.
\<close>

theorem preprocess_text_cleaned:
  assumes "get_stopwords w language = (Inr stop_words, w')"
  shows "preprocess_text w text language = (Inr (cleaned_text_spec stop_words text), w') \<and>
         split_py (cleaned_text_spec stop_words text) =
           [t \<leftarrow> split_py text. lower_py t \<notin> stop_words]"
proof
  show "preprocess_text w text language = (Inr (cleaned_text_spec stop_words text), w')"
    using assms by (simp add: preprocess_text_unfold)
next
  have "cleaned_text_spec stop_words text =
          join_py '' '' [t \<leftarrow> split_py text. lower_py t \<notin> stop_words]"
    by (simp add: cleaned_text_spec_def split_py_tokens_spec join_py_single_spaces)
  then show "split_py (cleaned_text_spec stop_words text) =
               [t \<leftarrow> split_py text. lower_py t \<notin> stop_words]"
    by (simp add: split_py_cleaned)
qed


theorem preprocess_text_cleaned_witness:
  "preprocess_text installed_world ''The  cat sat On a Mat '' ''english'' =
     (Inr ''cat sat Mat'', installed_world) \<and>
   split_py ''cat sat Mat'' = [''cat'', ''sat'', ''Mat'']"
proof -
  have g: "get_stopwords installed_world ''english'' =
             (Inr {''the'', ''a'', ''on''}, installed_world)"
    by (simp add: get_stopwords_def installed_world_def english_corpus_def corpus_words_def)
  have c: "cleaned_text_spec {''the'', ''a'', ''on''} ''The  cat sat On a Mat '' = ''cat sat Mat''"
    by code_simp
  have f: "[t \<leftarrow> split_py ''The  cat sat On a Mat ''. lower_py t \<notin> {''the'', ''a'', ''on''}] =
             [''cat'', ''sat'', ''Mat'']"
    by code_simp
  show ?thesis
    using preprocess_text_cleaned [OF g, of "''The  cat sat On a Mat ''"] c f by simp
qed


section \<open>Facts about cosine similarity\<close>

lemma dot_commute: "dot x y = dot y x"
proof (induction x arbitrary: y)
  case Nil
  show ?case by (simp add: dot_def)
next
  case (Cons a x)
  then show ?case by (cases y) (simp_all add: dot_def mult.commute)
qed

lemma dot_self: "dot x x = sum_list (map (\<lambda>v. v * v) x)"
  by (induction x) (simp_all add: dot_def)


lemma row_norm_zero_components: "row_norm x = 0 \<Longrightarrow> \<forall>v\<in>set x. v = 0"
proof -
  assume "row_norm x = 0"
  then have "sum_list (map (\<lambda>v. v * v) x) = 0"
    by (simp add: row_norm_def dot_self)
  moreover have "\<And>u. u \<in> set (map (\<lambda>v. v * v) x) \<Longrightarrow> 0 \<le> u" by auto
  ultimately have "\<forall>u\<in>set (map (\<lambda>v. v * v) x). u = 0"
    using sum_list_nonneg_eq_0_iff [of "map (\<lambda>v. v * v) x"] by blast
  then show ?thesis by simp
qed

lemma dot_zero_left: "\<forall>v\<in>set x. v = 0 \<Longrightarrow> dot x y = 0"
proof (induction x arbitrary: y)
  case Nil
  show ?case by (simp add: dot_def)
next
  case (Cons a x)
  have "dot x ys = 0" for ys using Cons by simp
  then show ?case using Cons.prems by (cases y) (simp_all add: dot_def)
qed

lemma divide_row_nonzero: "n \<noteq> 0 \<Longrightarrow> divide_row x n = Some (map (\<lambda>v. v / n) x)"
  by (induction x) (simp_all add: np_divide_def)

lemma divide_row_by_zero: "x \<noteq> [] \<Longrightarrow> divide_row x 0 = None"
  by (cases x) (simp_all add: np_divide_def)

lemma unguarded_division_has_no_value:
  "x \<noteq> [] \<Longrightarrow> row_norm x = 0 \<Longrightarrow> divide_row x (row_norm x) = None"
  by (simp add: divide_row_by_zero)

lemma handle_zeros_in_scale_nonzero: "handle_zeros_in_scale n \<noteq> 0"
  by (simp add: handle_zeros_in_scale_def)

lemma normalize_unit_row: "normalize x = Some (unit_row x)"
  by (simp add: normalize_def unit_row_def divide_row_nonzero handle_zeros_in_scale_nonzero)

lemma cosine_similarity_unfold:
  "cosine_similarity x y =
     (if length x = 0 \<or> length y = 0
        then Inl (ValueError ''Found array with 0 feature(s)'')
      else if length x \<noteq> length y
        then Inl (ValueError ''Incompatible dimension for X and Y matrices'')
      else Inr (dot (unit_row x) (unit_row y)))"
  by (simp add: cosine_similarity_def normalize_unit_row)

lemma normalize_zero: "\<forall>v\<in>set x. v = 0 \<Longrightarrow> \<forall>v\<in>set (unit_row x). v = 0"
  by (auto simp: unit_row_def)

lemma cosine_similarity_commute: "cosine_similarity x y = cosine_similarity y x"
  using dot_commute [of "unit_row x" "unit_row y"] by (auto simp: cosine_similarity_unfold)

lemma dot_normalize_zero: "row_norm x = 0 \<Longrightarrow> dot (unit_row x) y = 0"
proof -
  assume "row_norm x = 0"
  then have "\<forall>v\<in>set x. v = 0" by (rule row_norm_zero_components)
  then have "\<forall>v\<in>set (unit_row x). v = 0" by (rule normalize_zero)
  then show ?thesis by (rule dot_zero_left)
qed

lemma cosine_similarity_zero_norm:
  assumes "length x = length y" and "0 < length x"
    and "row_norm x = 0 \<or> row_norm y = 0"
  shows "cosine_similarity x y = Inr 0"
proof -
  have "dot (unit_row x) (unit_row y) = 0"
    using assms(3)
  proof
    assume "row_norm x = 0"
    then show ?thesis by (rule dot_normalize_zero)
  next
    assume "row_norm y = 0"
    then have "dot (unit_row y) (unit_row x) = 0" by (rule dot_normalize_zero)
    then show ?thesis using dot_commute [of "unit_row x" "unit_row y"] by simp
  qed
  then show ?thesis using assms(1,2) by (simp add: cosine_similarity_unfold)
qed








section \<open>Facts about the scorer\<close>

lemma similarity_body_vectors:
  assumes "preprocess_text w job_description language = (Inr job_clean, w1)"
    and "preprocess_text w1 cv_text language = (Inr cv_clean, w2)"
    and "embed_py job_clean = Inr job_vector"
    and "embed_py cv_clean = Inr cv_vector"
  shows "similarity_body embed_py w job_description cv_text language =
           (cosine_similarity job_vector cv_vector,
            w2\<lparr>embed_calls := embed_calls w2 @ [job_clean, cv_clean]\<rparr>)"
  using assms by (simp add: similarity_body_def call_embed_def split: sum.splits)

lemma similarity_body_embed_fails:
  assumes "preprocess_text w job_description language = (Inr job_clean, w1)"
    and "preprocess_text w1 cv_text language = (Inr cv_clean, w2)"
    and "embed_py job_clean = Inl e"
  shows "similarity_body embed_py w job_description cv_text language =
           (Inl e, w2\<lparr>embed_calls := embed_calls w2 @ [job_clean]\<rparr>)"
  using assms by (simp add: similarity_body_def call_embed_def)

lemma similarity_body_second_embed_fails:
  assumes "preprocess_text w job_description language = (Inr job_clean, w1)"
    and "preprocess_text w1 cv_text language = (Inr cv_clean, w2)"
    and "embed_py job_clean = Inr job_vector"
    and "embed_py cv_clean = Inl e"
  shows "similarity_body embed_py w job_description cv_text language =
           (Inl e, w2\<lparr>embed_calls := embed_calls w2 @ [job_clean, cv_clean]\<rparr>)"
  using assms by (simp add: similarity_body_def call_embed_def)


lemma supported_languages_None_iff:
  "SUPPORTED_LANGUAGES language = None \<longleftrightarrow> language \<notin> language_codes"
  by (simp add: SUPPORTED_LANGUAGES_def language_codes_def)

lemma messages_differ:
  "unsupported_language_message language \<noteq> empty_text_message"
  by (simp add: empty_text_message_def unsupported_language_message_def)

lemma score_blank:
  "list_all is_space job_description \<or> list_all is_space cv_text \<Longrightarrow>
   compute_similarity_score embed_py w job_description cv_text language =
     (Inl (ValueError empty_text_message), w)"
  by (simp add: compute_similarity_score_def strip_py_Nil_iff)

lemma score_unsupported:
  "\<not> list_all is_space job_description \<Longrightarrow> \<not> list_all is_space cv_text \<Longrightarrow>
   SUPPORTED_LANGUAGES language = None \<Longrightarrow>
   compute_similarity_score embed_py w job_description cv_text language =
     (Inl (ValueError (unsupported_language_message language)), w)"
  by (simp add: compute_similarity_score_def strip_py_Nil_iff)

lemma score_body:
  "\<not> list_all is_space job_description \<Longrightarrow> \<not> list_all is_space cv_text \<Longrightarrow>
   SUPPORTED_LANGUAGES language \<noteq> None \<Longrightarrow>
   compute_similarity_score embed_py w job_description cv_text language =
     (case similarity_body embed_py w job_description cv_text language of
        (Inl e, w') \<Rightarrow>
          (Inl (Exception (scoring_error_message e)), w')
      | (Inr similarity, w') \<Rightarrow> (Inr similarity, w'))"
  by (cases "SUPPORTED_LANGUAGES language")
     (simp_all add: compute_similarity_score_def strip_py_Nil_iff)

lemma score_body_not_ValueError:
  "\<not> list_all is_space job_description \<Longrightarrow> \<not> list_all is_space cv_text \<Longrightarrow>
   SUPPORTED_LANGUAGES language \<noteq> None \<Longrightarrow>
   fst (compute_similarity_score embed_py w job_description cv_text language) \<noteq>
     Inl (ValueError m)"
  by (simp add: score_body split: prod.splits sum.splits)

lemma get_stopwords_installed:
  "nltk_data w = Some c \<Longrightarrow> get_stopwords w language = (Inr (corpus_words c language), w)"
  by (simp add: get_stopwords_def)

lemma get_stopwords_Inr:
  assumes "get_stopwords w language = (Inr stop_words, w')"
  shows "\<exists>c. nltk_data w' = Some c \<and> stop_words = corpus_words c language"
    and "w' = (if nltk_data w = None then nltk_download w else w)"
  using assms
  by (auto simp: get_stopwords_def Let_def split: option.splits)

lemma get_stopwords_Inl:
  assumes "get_stopwords w language = (Inl e, w')"
  shows "w' = w" and "nltk_data w = None" and "nltk_remote w = None"
    and "e = LookupError resource_not_found"
  using assms
  by (auto simp: get_stopwords_def Let_def nltk_download_def split: option.splits)

lemma get_stopwords_again:
  assumes "get_stopwords w language = (Inr stop_words, w')"
  shows "get_stopwords (w'\<lparr>embed_calls := cs\<rparr>) language =
           (Inr stop_words, w'\<lparr>embed_calls := cs\<rparr>)"
proof -
  obtain c where "nltk_data w' = Some c" "stop_words = corpus_words c language"
    using get_stopwords_Inr(1) [OF assms] by blast
  then show ?thesis by (simp add: get_stopwords_installed)
qed

lemma get_stopwords_again_same:
  assumes "get_stopwords w language = (Inr stop_words, w')"
  shows "get_stopwords w' language = (Inr stop_words, w')"
  using get_stopwords_again [OF assms, of "embed_calls w'"] by simp

lemma similarity_body_stopwords:
  assumes "get_stopwords w language = (Inr stop_words, w')"
  shows "similarity_body embed_py w job_description cv_text language =
           embed_pair embed_py w' (cleaned_text_spec stop_words job_description)
             (cleaned_text_spec stop_words cv_text)"
  using assms get_stopwords_again_same [OF assms]
  by (simp add: similarity_body_def preprocess_text_unfold call_embed_def embed_pair_def
      split: sum.splits)

lemma similarity_body_no_stopwords:
  assumes "get_stopwords w language = (Inl e, w')"
  shows "similarity_body embed_py w job_description cv_text language = (Inl e, w')"
  using assms by (simp add: similarity_body_def preprocess_text_unfold)

lemma score_stopwords:
  assumes "\<not> list_all is_space job_description" and "\<not> list_all is_space cv_text"
    and "language \<in> language_codes"
    and "get_stopwords w language = (Inr stop_words, w')"
  shows "compute_similarity_score embed_py w job_description cv_text language =
           (case embed_pair embed_py w' (cleaned_text_spec stop_words job_description)
                   (cleaned_text_spec stop_words cv_text) of
              (Inl e, w'') \<Rightarrow> (Inl (Exception (scoring_error_message e)), w'')
            | (Inr similarity, w'') \<Rightarrow> (Inr similarity, w''))"
proof -
  have "SUPPORTED_LANGUAGES language \<noteq> None"
    using assms(3) supported_languages_None_iff [of language] by simp
  then show ?thesis
    using assms(1,2) by (simp add: score_body similarity_body_stopwords [OF assms(4)])
qed

lemma score_no_stopwords:
  assumes "\<not> list_all is_space job_description" and "\<not> list_all is_space cv_text"
    and "language \<in> language_codes"
    and "get_stopwords w language = (Inl e, w')"
  shows "compute_similarity_score embed_py w job_description cv_text language =
           (Inl (Exception (scoring_error_message e)), w')"
proof -
  have "SUPPORTED_LANGUAGES language \<noteq> None"
    using assms(3) supported_languages_None_iff [of language] by simp
  then show ?thesis
    using assms(1,2) by (simp add: score_body similarity_body_no_stopwords [OF assms(4)])
qed

lemma embed_pair_vectors:
  "embed_py job_clean = Inr job_vector \<Longrightarrow> embed_py cv_clean = Inr cv_vector \<Longrightarrow>
   embed_pair embed_py w job_clean cv_clean =
     (cosine_similarity job_vector cv_vector,
      w\<lparr>embed_calls := embed_calls w @ [job_clean, cv_clean]\<rparr>)"
  by (simp add: embed_pair_def)

lemma score_vectors:
  assumes "\<not> list_all is_space job_description" and "\<not> list_all is_space cv_text"
    and "language \<in> language_codes"
    and "get_stopwords w language = (Inr stop_words, w')"
    and "embed_py (cleaned_text_spec stop_words job_description) = Inr job_vector"
    and "embed_py (cleaned_text_spec stop_words cv_text) = Inr cv_vector"
    and "cosine_similarity job_vector cv_vector = Inr similarity"
  shows "fst (compute_similarity_score embed_py w job_description cv_text language) =
           Inr similarity"
  using assms(5-7)
  by (simp add: score_stopwords [OF assms(1-4)] embed_pair_def)

lemma score_zero_norm:
  assumes "\<not> list_all is_space job_description" and "\<not> list_all is_space cv_text"
    and "language \<in> language_codes"
    and "get_stopwords w language = (Inr stop_words, w')"
    and "embed_py (cleaned_text_spec stop_words job_description) = Inr job_vector"
    and "embed_py (cleaned_text_spec stop_words cv_text) = Inr cv_vector"
    and "length job_vector = length cv_vector" and "0 < length job_vector"
    and "row_norm job_vector = 0 \<or> row_norm cv_vector = 0"
  shows "fst (compute_similarity_score embed_py w job_description cv_text language) = Inr 0"
  using score_vectors [OF assms(1-6) cosine_similarity_zero_norm [OF assms(7-9)]] .

lemma installed_stopwords_en:
  "get_stopwords installed_world ''en'' = (Inr {}, installed_world)"
  by (simp add: get_stopwords_def installed_world_def english_corpus_def corpus_words_def)

lemma coded_stopwords_en:
  "get_stopwords coded_world ''en'' = (Inr {''the'', ''a'', ''on''}, coded_world)"
  by (simp add: get_stopwords_def coded_world_def coded_corpus_def corpus_words_def)

lemma cleaned_examples:
  "cleaned_text_spec {} ''Java'' = ''Java''"
  "cleaned_text_spec {} ''Python'' = ''Python''"
  "cleaned_text_spec {''the'', ''a'', ''on''} ''the'' = []"
  "cleaned_text_spec {''the'', ''a'', ''on''} ''Python'' = ''Python''"
  by code_simp+

lemma row_norm_examples:
  "row_norm [0, 0] = 0" "row_norm [1] = 1" "row_norm [- 1] = 1"
  "row_norm [1, 0] = 1" "row_norm [0, 1] = 1"
  by (simp_all add: row_norm_def dot_def)

lemma cosine_examples:
  "cosine_similarity [1] [- 1] = Inr (- 1)"
  "cosine_similarity [1, 0] [0, 1] = Inr 0"
  by (simp_all add: cosine_similarity_unfold unit_row_def row_norm_examples
      handle_zeros_in_scale_def dot_def)

lemma not_blank_Cons: "\<not> is_space c \<Longrightarrow> \<not> list_all is_space (c # cs)"
  by simp

lemma letters_not_space: "\<not> is_space CHR ''J''" "\<not> is_space CHR ''P''"
  by (simp_all add: is_space_def whitespace_codes_def)

lemma tab_space_blank: "list_all is_space [CHR 0x09, CHR '' '']"
  by (simp add: is_space_def whitespace_codes_def)

lemma example_codes: "''xx'' \<notin> language_codes" "''en'' \<in> language_codes"
  by (simp_all add: language_codes_def)


lemma example_not_blank:
  "\<not> list_all is_space ''Java''" "\<not> list_all is_space ''Python''"
  "\<not> list_all is_space ''the''" "\<not> list_all is_space ''on the''"
  by (simp_all add: is_space_def whitespace_codes_def)

lemma score_stopwords_fst:
  assumes "\<not> list_all is_space job_description" and "\<not> list_all is_space cv_text"
    and "language \<in> language_codes"
    and "get_stopwords w language = (Inr stop_words, w')"
  shows "fst (compute_similarity_score embed_py w job_description cv_text language) =
           (case fst (embed_pair embed_py w' (cleaned_text_spec stop_words job_description)
                        (cleaned_text_spec stop_words cv_text)) of
              Inl e \<Rightarrow> Inl (Exception (scoring_error_message e))
            | Inr similarity \<Rightarrow> Inr similarity)"
  by (simp add: score_stopwords [OF assms] split: prod.splits sum.splits)

lemma embed_pair_fails:
  "embed_py job_clean = Inl e \<or> (embed_py job_clean = Inr v \<and> embed_py cv_clean = Inl e) \<Longrightarrow>
   fst (embed_pair embed_py w job_clean cv_clean) = Inl e"
  by (auto simp: embed_pair_def)

lemma score_embed_fails:
  assumes "\<not> list_all is_space job_description" and "\<not> list_all is_space cv_text"
    and "language \<in> language_codes"
    and "get_stopwords w language = (Inr stop_words, w')"
    and "embed_py (cleaned_text_spec stop_words job_description) = Inl e \<or>
         (embed_py (cleaned_text_spec stop_words job_description) = Inr v \<and>
          embed_py (cleaned_text_spec stop_words cv_text) = Inl e)"
  shows "fst (compute_similarity_score embed_py w job_description cv_text language) =
           Inl (Exception (scoring_error_message e))"
  using embed_pair_fails [where embed_py = embed_py and w = w', OF assms(5)]
  by (simp add: score_stopwords_fst [OF assms(1-4)])

lemma embed_pair_swap:
  "fst (embed_pair embed_py w job_clean cv_clean) = Inr similarity \<Longrightarrow>
   fst (embed_pair embed_py w cv_clean job_clean) = Inr similarity"
  using cosine_similarity_commute
  by (auto simp: embed_pair_def split: sum.splits)

lemma score_Inr_cases:
  assumes "fst (compute_similarity_score embed_py w job_description cv_text language) =
             Inr similarity"
  shows "\<not> list_all is_space job_description" and "\<not> list_all is_space cv_text"
    and "language \<in> language_codes"
    and "\<exists>stop_words w'. get_stopwords w language = (Inr stop_words, w')"
proof -
  show a: "\<not> list_all is_space job_description" using assms score_blank by fastforce
  show b: "\<not> list_all is_space cv_text" using assms score_blank by fastforce
  show c: "language \<in> language_codes"
    using assms a b score_unsupported supported_languages_None_iff by fastforce
  show "\<exists>stop_words w'. get_stopwords w language = (Inr stop_words, w')"
  proof (cases "get_stopwords w language")
    case (Pair r w')
    then show ?thesis
      using assms score_no_stopwords [OF a b c] by (cases r) auto
  qed
qed

lemma offline_stopwords:
  "get_stopwords offline_world language = (Inl (LookupError resource_not_found), offline_world)"
  by (simp add: get_stopwords_def offline_world_def nltk_download_def)

lemma get_stopwords_available:
  assumes "nltk_data w = Some c \<or> (nltk_data w = None \<and> nltk_remote w = Some c)"
  shows "fst (get_stopwords w language) = Inr (corpus_words c language)"
  using assms by (auto simp: get_stopwords_def nltk_download_def)

lemma corpus_words_missing: "c language = None \<Longrightarrow> corpus_words c language = {}"
  by (simp add: corpus_words_def)

lemma embed_pair_fst_world:
  "fst (embed_pair embed_py w job_clean cv_clean) = fst (embed_pair embed_py w2 job_clean cv_clean)"
  by (simp add: embed_pair_def split: sum.splits)

lemma embed_pair_world:
  "(snd (embed_pair embed_py w job_clean cv_clean))\<lparr>embed_calls := cs\<rparr> =
     w\<lparr>embed_calls := cs\<rparr>"
  by (simp add: embed_pair_def split: sum.splits)

lemma score_world_stopwords:
  assumes "\<not> list_all is_space job_description" and "\<not> list_all is_space cv_text"
    and "language \<in> language_codes"
    and "get_stopwords w language = (Inr stop_words, w1)"
  shows "(snd (compute_similarity_score embed_py w job_description cv_text language))
           \<lparr>embed_calls := cs\<rparr> = w1\<lparr>embed_calls := cs\<rparr>"
proof -
  have "snd (compute_similarity_score embed_py w job_description cv_text language) =
          snd (embed_pair embed_py w1 (cleaned_text_spec stop_words job_description)
                 (cleaned_text_spec stop_words cv_text))"
    by (simp add: score_stopwords [OF assms] split: prod.splits sum.splits)
  then show ?thesis by (simp add: embed_pair_world)
qed

lemma score_early_world:
  assumes "list_all is_space job_description \<or> list_all is_space cv_text \<or>
           language \<notin> language_codes \<or> (\<exists>e w1. get_stopwords w language = (Inl e, w1))"
  shows "snd (compute_similarity_score embed_py w job_description cv_text language) = w"
proof (cases "list_all is_space job_description \<or> list_all is_space cv_text")
  case True
  then show ?thesis by (simp add: score_blank)
next
  case nb: False
  show ?thesis
  proof (cases "language \<in> language_codes")
    case False
    then show ?thesis using nb by (simp add: score_unsupported supported_languages_None_iff)
  next
    case True
    then obtain e w1 where g: "get_stopwords w language = (Inl e, w1)"
      using assms nb by blast
    then have "w1 = w" by (rule get_stopwords_Inl(1))
    then show ?thesis using nb True g by (simp add: score_no_stopwords)
  qed
qed

lemma rerun_lemma:
  assumes "compute_similarity_score embed_py w a b language = (r, w')"
  shows "fst (compute_similarity_score embed_py w' a b language) = r"
    and "w'\<lparr>embed_calls := embed_calls w\<rparr> = w \<or>
         (nltk_data w = None \<and> w'\<lparr>embed_calls := embed_calls w\<rparr> = nltk_download w)"
proof -
  let ?run = "compute_similarity_score embed_py w a b language"
  have r: "r = fst ?run" and w': "w' = snd ?run" using assms by simp_all
  show "fst (compute_similarity_score embed_py w' a b language) = r"
  proof (cases "list_all is_space a \<or> list_all is_space b \<or>
           language \<notin> language_codes \<or> (\<exists>e w1. get_stopwords w language = (Inl e, w1))")
    case True
    then have "w' = w" using w' score_early_world by simp
    then show ?thesis using r by simp
  next
    case False
    then have ok: "\<not> list_all is_space a" "\<not> list_all is_space b" "language \<in> language_codes"
      by simp_all
    obtain stop_words w1 where g: "get_stopwords w language = (Inr stop_words, w1)"
      using False by (cases "get_stopwords w language"; cases "fst (get_stopwords w language)") auto
    have "w'\<lparr>embed_calls := embed_calls w'\<rparr> = w1\<lparr>embed_calls := embed_calls w'\<rparr>"
      unfolding w' using score_world_stopwords [OF ok g] by blast
    then have "w' = w1\<lparr>embed_calls := embed_calls w'\<rparr>" by simp
    then have g': "get_stopwords w' language = (Inr stop_words, w')"
      using get_stopwords_again [OF g, of "embed_calls w'"] by simp
    show ?thesis
      using embed_pair_fst_world [of embed_py w' _ _ w1]
      by (simp add: r score_stopwords_fst [OF ok g] score_stopwords_fst [OF ok g'])
  qed
  show "w'\<lparr>embed_calls := embed_calls w\<rparr> = w \<or>
         (nltk_data w = None \<and> w'\<lparr>embed_calls := embed_calls w\<rparr> = nltk_download w)"
  proof (cases "list_all is_space a \<or> list_all is_space b \<or>
           language \<notin> language_codes \<or> (\<exists>e w1. get_stopwords w language = (Inl e, w1))")
    case True
    then have "w' = w" using w' score_early_world by simp
    then show ?thesis by simp
  next
    case False
    then have ok: "\<not> list_all is_space a" "\<not> list_all is_space b" "language \<in> language_codes"
      by simp_all
    obtain stop_words w1 where g: "get_stopwords w language = (Inr stop_words, w1)"
      using False by (cases "get_stopwords w language"; cases "fst (get_stopwords w language)") auto
    have e: "w'\<lparr>embed_calls := embed_calls w\<rparr> = w1\<lparr>embed_calls := embed_calls w\<rparr>"
      unfolding w' using score_world_stopwords [OF ok g] by blast
    have w1: "w1 = (if nltk_data w = None then nltk_download w else w)"
      using get_stopwords_Inr(2) [OF g] .
    show ?thesis
    proof (cases "nltk_data w = None")
      case True
      then have "w1\<lparr>embed_calls := embed_calls w\<rparr> = nltk_download w"
        using w1 by (simp add: nltk_download_def split: option.splits)
      then show ?thesis using True e by simp
    next
      case False
      then have "w1 = w" using w1 by auto
      then show ?thesis using e by simp
    qed
  qed
qed

lemma fresh_stopwords_en:
  "get_stopwords fresh_world ''en'' = (Inr {}, nltk_download fresh_world)"
  by (simp add: get_stopwords_def fresh_world_def english_corpus_def corpus_words_def
      nltk_download_def)





section \<open>Facts about the route\<close>

lemma language_names_not_empty: "SUPPORTED_LANGUAGES language \<noteq> Some []"
  by (simp add: SUPPORTED_LANGUAGES_def)

lemma responses_differ:
  "required_fields_response \<noteq> unsupported_language_response"
  "internal_error_response \<noteq> unsupported_language_response"
  "(MatchJson s ev, 200) \<noteq> unsupported_language_response"
  "missing_api_key_response \<noteq> unsupported_language_response"
  "invalid_api_key_response \<noteq> unsupported_language_response"
  "too_many_requests_response \<noteq> unsupported_language_response"
  by (simp_all add: required_fields_response_def unsupported_language_response_def
      internal_error_response_def missing_api_key_response_def invalid_api_key_response_def
      too_many_requests_response_def)

lemma score_unsupported_fails:
  assumes "language \<notin> language_codes"
  shows "compute_similarity_score embed_py w job_description cv_text language =
           (Inl (ValueError (if list_all is_space job_description \<or> list_all is_space cv_text
                             then empty_text_message
                             else unsupported_language_message language)), w)"
  using assms by (simp add: score_blank score_unsupported supported_languages_None_iff)

lemma endpoint_unfold:
  "evaluate_cv_match_endpoint sv w req =
     (if missing_fields req then required_fields w
      else
        (case save_and_extract sv (the (files_cv_file req)) of
           Inl e \<Rightarrow> internal_error [processing_line] e w
         | Inr cv_text \<Rightarrow>
             after_extract sv w (the (form_job_description req)) cv_text
               (lower_py (case form_language req of None \<Rightarrow> ''en'' | Some l \<Rightarrow> l))))"
  by (cases "files_cv_file req"; cases "form_job_description req")
     (simp_all add: evaluate_cv_match_endpoint_def missing_fields_def after_extract_def Let_def
        split: sum.splits)

lemma after_extract_failure:
  "compute_similarity_score (embed_model sv) w jd cv_text language = (Inl e, w') \<Longrightarrow>
   after_extract sv w jd cv_text language =
     internal_error [processing_line, extracted_line] e w'"
  by (simp add: after_extract_def)

lemma after_extract_not_unsupported:
  "answer (after_extract sv w jd cv_text language) \<noteq> unsupported_language_response"
proof (cases "compute_similarity_score (embed_model sv) w jd cv_text language")
  case (Pair r w')
  show ?thesis
  proof (cases r)
    case (Inl e)
    then show ?thesis
      using Pair by (simp add: after_extract_failure internal_error_def responses_differ)
  next
    case (Inr s)
    then have "fst (compute_similarity_score (embed_model sv) w jd cv_text language) = Inr s"
      using Pair by simp
    then have "language \<in> language_codes" by (rule score_Inr_cases(3))
    then obtain name where n: "SUPPORTED_LANGUAGES language = Some name"
      using supported_languages_None_iff [of language] by auto
    then have "name \<noteq> []" using language_names_not_empty [of language] by simp
    then show ?thesis
      using Inr Pair n
      by (simp add: after_extract_def get_language_name_def internal_error_def
          responses_differ split: sum.splits)
  qed
qed

lemma endpoint_not_unsupported:
  "answer (evaluate_cv_match_endpoint sv w req) \<noteq> unsupported_language_response"
  by (simp add: endpoint_unfold after_extract_not_unsupported responses_differ
      required_fields_def internal_error_def split: sum.splits)

lemma route_passes:
  assumes "header_x_api_key req = Some api_key" and "api_key \<noteq> []"
    and "API_KEY sv = Some api_key" and "\<not> limit_exceeded sv"
  shows "evaluate_cv_match_route sv w req = evaluate_cv_match_endpoint sv w req"
  using assms by (simp add: evaluate_cv_match_route_def limited_def)

lemma unsupported_branch_dead:
  "answer (evaluate_cv_match_route sv w req) \<noteq> unsupported_language_response"
  by (simp add: evaluate_cv_match_route_def limited_def rejected_def endpoint_not_unsupported
      responses_differ split: option.splits)

lemma endpoint_scores:
  assumes "files_cv_file req = Some f" and "filename f \<noteq> []"
    and "form_job_description req = Some jd" and "jd \<noteq> []"
    and "save_and_extract sv f = Inr cv_text"
  shows "evaluate_cv_match_endpoint sv w req =
           after_extract sv w jd cv_text
             (lower_py (case form_language req of None \<Rightarrow> ''en'' | Some l \<Rightarrow> l))"
  using assms by (simp add: endpoint_unfold missing_fields_def)

lemma endpoint_extraction_fails:
  assumes "files_cv_file req = Some f" and "filename f \<noteq> []"
    and "form_job_description req = Some jd" and "jd \<noteq> []"
    and "save_and_extract sv f = Inl e"
  shows "evaluate_cv_match_endpoint sv w req = internal_error [processing_line] e w"
  using assms by (simp add: endpoint_unfold missing_fields_def)

lemma example_suffixes:
  "lower_py (get_file_suffix ''cv.txt'') = ''.txt''"
  "lower_py (get_file_suffix ''cv.png'') = ''.png''"
  "lower_py ''XX'' = ''xx''" "lower_py ''xx'' = ''xx''"
  by code_simp+

lemma example_extraction:
  "save_and_extract example_services \<lparr>filename = ''cv.txt'', file_bytes = ''Python''\<rparr> =
     Inr ''Python''"
  "save_and_extract example_services \<lparr>filename = ''cv.png'', file_bytes = ''Python''\<rparr> =
     Inl (ValueError ''Unsupported file format.'')"
  by (simp_all add: save_and_extract_def extract_text_def example_services_def
      example_suffixes)

lemma example_route_passes:
  "evaluate_cv_match_route example_services w request_with_file =
     evaluate_cv_match_endpoint example_services w request_with_file"
  "evaluate_cv_match_route example_services w request_without_file =
     evaluate_cv_match_endpoint example_services w request_without_file"
  "evaluate_cv_match_route example_services w request_with_picture =
     evaluate_cv_match_endpoint example_services w request_with_picture"
  by (rule route_passes [where api_key = "''secret''"];
      simp add: example_services_def request_with_file_def request_without_file_def
        request_with_picture_def)+

lemma picture_request_fails_in_extraction:
  "evaluate_cv_match_route example_services installed_world request_with_picture =
     internal_error [processing_line] (ValueError ''Unsupported file format.'') installed_world"
proof -
  have "evaluate_cv_match_endpoint example_services installed_world request_with_picture =
          internal_error [processing_line] (ValueError ''Unsupported file format.'')
            installed_world"
    by (rule endpoint_extraction_fails [OF _ _ _ _ example_extraction(2), of _ "''Java''"])
       (simp_all add: request_with_picture_def)
  then show ?thesis by (simp only: example_route_passes)
qed

section \<open>The input checks of the scorer\<close>

text \<open>
  C5. The scorer fails with \<open>ValueError\<close> and the empty-text message (the
  specification's \<open>InvalidInput\<close>) exactly when the job description or the CV text is
  empty or consists of whitespace only: whatever the language code is for blank texts,
  and never for two texts that are non-empty after trimming.
\<close>

theorem blank_text_is_invalid_input:
  "fst (compute_similarity_score embed_py w job_description cv_text language) =
     Inl (ValueError empty_text_message) \<longleftrightarrow>
   list_all is_space job_description \<or> list_all is_space cv_text"
proof (cases "list_all is_space job_description \<or> list_all is_space cv_text")
  case True
  then show ?thesis by (simp add: score_blank)
next
  case False
  then have nb: "\<not> list_all is_space job_description" "\<not> list_all is_space cv_text"
    by simp_all
  show ?thesis
  proof (cases "SUPPORTED_LANGUAGES language = None")
    case True
    then show ?thesis using False nb by (simp add: score_unsupported messages_differ)
  next
    case False
    then show ?thesis using nb score_body_not_ValueError [OF nb False] by simp
  qed
qed

theorem blank_text_is_invalid_input_witness:
  "fst (compute_similarity_score zero_embed installed_world [CHR 0x09, CHR '' '']
          ''Python'' ''xx'') = Inl (ValueError empty_text_message) \<and>
   fst (compute_similarity_score zero_embed installed_world ''Java''
          ''Python'' ''xx'') \<noteq> Inl (ValueError empty_text_message)"
proof -
  have b: "\<not> list_all is_space ''Java''" "\<not> list_all is_space ''Python''"
    by (rule not_blank_Cons, rule letters_not_space)+
  show ?thesis
    using tab_space_blank b
      blank_text_is_invalid_input [of zero_embed installed_world "[CHR 0x09, CHR '' '']"
        "''Python''" "''xx''"]
      blank_text_is_invalid_input [of zero_embed installed_world "''Java''"
        "''Python''" "''xx''"]
    by blast
qed


text \<open>
  C4, as stated, fails: the text check comes first, so an unsupported language code
  together with a blank text is reported as the empty-text error.
\<close>

theorem unsupported_language_counterexample:
  "''xx'' \<notin> language_codes \<and>
   compute_similarity_score zero_embed installed_world [] ''Python'' ''xx'' =
     (Inl (ValueError empty_text_message), installed_world) \<and>
   ValueError empty_text_message \<noteq> ValueError (unsupported_language_message ''xx'')"
  using score_blank [of "[]" "''Python''" zero_embed installed_world "''xx''"]
    messages_differ [of "''xx''"] example_codes(1)
  by simp


text \<open>
  C4, amended. For texts that are non-empty after trimming, every language code outside
  \<open>{en, tr, de, fr, es, it, nl}\<close> makes the scorer fail with \<open>ValueError\<close> and the
  unsupported-language message, leaving the world as it was: no call to the embedding
  provider is made. For every code in that set, whatever the texts, that failure does not
  occur.
\<close>

theorem unsupported_language_after_text_check:
  "(\<not> list_all is_space job_description \<and> \<not> list_all is_space cv_text \<and>
    language \<notin> language_codes \<longrightarrow>
      compute_similarity_score embed_py w job_description cv_text language =
        (Inl (ValueError (unsupported_language_message language)), w)) \<and>
   (language \<in> language_codes \<longrightarrow>
      fst (compute_similarity_score embed_py w job_description cv_text language) \<noteq>
        Inl (ValueError (unsupported_language_message language)))"
proof (intro conjI impI)
  assume "\<not> list_all is_space job_description \<and> \<not> list_all is_space cv_text \<and>
    language \<notin> language_codes"
  then show "compute_similarity_score embed_py w job_description cv_text language =
        (Inl (ValueError (unsupported_language_message language)), w)"
    by (simp add: score_unsupported supported_languages_None_iff)
next
  assume "language \<in> language_codes"
  then have sup: "SUPPORTED_LANGUAGES language \<noteq> None"
    using supported_languages_None_iff [of language] by simp
  show "fst (compute_similarity_score embed_py w job_description cv_text language) \<noteq>
        Inl (ValueError (unsupported_language_message language))"
  proof (cases "list_all is_space job_description \<or> list_all is_space cv_text")
    case True
    then show ?thesis using messages_differ [of language] by (simp add: score_blank)
  next
    case False
    then show ?thesis using score_body_not_ValueError [OF _ _ sup] by simp
  qed
qed


theorem unsupported_language_after_text_check_witness:
  "compute_similarity_score zero_embed installed_world ''Java'' ''Python'' ''xx'' =
     (Inl (ValueError (unsupported_language_message ''xx'')), installed_world) \<and>
   fst (compute_similarity_score zero_embed installed_world ''Java'' ''Python'' ''en'') \<noteq>
     Inl (ValueError (unsupported_language_message ''en''))"
proof -
  have b: "\<not> list_all is_space ''Java''" "\<not> list_all is_space ''Python''"
    by (rule not_blank_Cons, rule letters_not_space)+
  show ?thesis
    using b example_codes
      unsupported_language_after_text_check [of "''Java''" "''Python''"
        "''xx''" zero_embed installed_world]
      unsupported_language_after_text_check [of "''Java''" "''Python''"
        "''en''" zero_embed installed_world]
    by blast
qed



section \<open>Zero-norm embeddings\<close>

text \<open>
  C2, as stated, fails: the scorer has no error for a zero-norm embedding. When the
  provider returns the zero vector, \<open>cosine_similarity\<close> replaces the zero norm by 1 and
  the scorer returns the score 0.
\<close>

theorem zero_norm_counterexample:
  "zero_embed ''Java'' = Inr [0, 0] \<and> row_norm [0, 0] = 0 \<and>
   fst (compute_similarity_score zero_embed installed_world ''Java'' ''Python'' ''en'') = Inr 0"
proof -
  have "fst (compute_similarity_score zero_embed installed_world ''Java'' ''Python'' ''en'') =
          Inr 0"
    by (rule score_zero_norm [OF example_not_blank(1,2) example_codes(2) installed_stopwords_en,
          of zero_embed "[0, 0]" "[0, 0]"])
       (simp_all add: zero_embed_def row_norm_examples)
  then show ?thesis by (simp add: zero_embed_def row_norm_examples)
qed

text \<open>
  C2, amended. For valid inputs (texts non-empty after trimming, supported language code,
  stopwords obtained) whose embeddings have the same positive dimension, if at least one
  embedding has zero L2 norm then the scorer does not fail: it returns the score 0, and
  it performs no division by zero. Both normalisations have a value (a division by zero
  has none, see \<open>divide_row_by_zero\<close>), and a row of zero norm is divided by 1.
\<close>

theorem zero_norm_embedding_scores_zero:
  assumes "\<not> list_all is_space job_description" and "\<not> list_all is_space cv_text"
    and "language \<in> language_codes"
    and "get_stopwords w language = (Inr stop_words, w')"
    and "embed_py (cleaned_text_spec stop_words job_description) = Inr job_vector"
    and "embed_py (cleaned_text_spec stop_words cv_text) = Inr cv_vector"
    and "length job_vector = length cv_vector" and "0 < length job_vector"
    and "row_norm job_vector = 0 \<or> row_norm cv_vector = 0"
  shows "fst (compute_similarity_score embed_py w job_description cv_text language) = Inr 0 \<and>
         normalize job_vector \<noteq> None \<and> normalize cv_vector \<noteq> None \<and>
         (row_norm job_vector = 0 \<longrightarrow> normalize job_vector = divide_row job_vector 1) \<and>
         (row_norm cv_vector = 0 \<longrightarrow> normalize cv_vector = divide_row cv_vector 1)"
proof (intro conjI impI)
  show "fst (compute_similarity_score embed_py w job_description cv_text language) = Inr 0"
    using assms by (rule score_zero_norm)
next
  show "normalize job_vector \<noteq> None" by (simp add: normalize_unit_row)
next
  show "normalize cv_vector \<noteq> None" by (simp add: normalize_unit_row)
next
  assume "row_norm job_vector = 0"
  then show "normalize job_vector = divide_row job_vector 1"
    by (simp add: normalize_def handle_zeros_in_scale_def)
next
  assume "row_norm cv_vector = 0"
  then show "normalize cv_vector = divide_row cv_vector 1"
    by (simp add: normalize_def handle_zeros_in_scale_def)
qed

theorem zero_norm_embedding_scores_zero_witness:
  "fst (compute_similarity_score origin_embed coded_world ''the'' ''Python'' ''en'') = Inr 0 \<and>
   normalize [0, 0] = Some [0, 0] \<and> normalize [1, 0] \<noteq> None"
proof -
  have d: "divide_row [0, 0] 1 = Some [0, 0]" by (simp add: np_divide_def)
  have "fst (compute_similarity_score origin_embed coded_world ''the'' ''Python'' ''en'') =
          Inr 0 \<and>
        normalize [0, 0] \<noteq> None \<and> normalize [1, 0] \<noteq> None \<and>
        (row_norm [0, 0] = 0 \<longrightarrow> normalize [0, 0] = divide_row [0, 0] 1) \<and>
        (row_norm [1, 0] = 0 \<longrightarrow> normalize [1, 0] = divide_row [1, 0] 1)"
    by (rule zero_norm_embedding_scores_zero
          [OF example_not_blank(3,2) example_codes(2) coded_stopwords_en,
            of origin_embed "[0, 0]" "[1, 0]"])
       (simp_all add: origin_embed_def cleaned_examples row_norm_examples)
  then show ?thesis using d row_norm_examples(1) by simp
qed

section \<open>The failures of the scorer\<close>

text \<open>
  C3, as stated, fails: the degenerate condition is not reported as an error. A text
  reduced to nothing by stopword removal whose embedding is the zero vector yields the
  score 0.
\<close>

theorem degenerate_counterexample:
  "cleaned_text_spec {''the'', ''a'', ''on''} ''on the'' = [] \<and>
   origin_embed [] = Inr [0, 0] \<and>
   fst (compute_similarity_score origin_embed coded_world ''on the'' ''Python'' ''en'') = Inr 0"
proof -
  have c: "cleaned_text_spec {''the'', ''a'', ''on''} ''on the'' = []" by code_simp
  have "fst (compute_similarity_score origin_embed coded_world ''on the'' ''Python'' ''en'') =
          Inr 0"
    by (rule score_zero_norm [OF example_not_blank(4,2) example_codes(2) coded_stopwords_en,
          of origin_embed "[0, 0]" "[1, 0]"])
       (simp_all add: origin_embed_def c cleaned_examples row_norm_examples)
  then show ?thesis using c by (simp add: origin_embed_def)
qed


text \<open>
  C3, amended. Three failure conditions are reported to the caller as pairwise distinct
  error values and never as a score: blank text as \<open>ValueError\<close> with the empty-text
  message, an unsupported language code (texts not blank) as \<open>ValueError\<close> with the
  unsupported-language message, and a failing embedding call (valid inputs, stopwords
  obtained) as \<open>Exception\<close> carrying the message of the provider's exception.
\<close>

theorem failures_are_distinct_errors:
  "(list_all is_space job_description \<or> list_all is_space cv_text \<longrightarrow>
      fst (compute_similarity_score embed_py w job_description cv_text language) =
        Inl (ValueError empty_text_message)) \<and>
   (\<not> list_all is_space job_description \<and> \<not> list_all is_space cv_text \<and>
    language \<notin> language_codes \<longrightarrow>
      fst (compute_similarity_score embed_py w job_description cv_text language) =
        Inl (ValueError (unsupported_language_message language))) \<and>
   (\<not> list_all is_space job_description \<and> \<not> list_all is_space cv_text \<and>
    language \<in> language_codes \<and> get_stopwords w language = (Inr stop_words, w') \<and>
    (embed_py (cleaned_text_spec stop_words job_description) = Inl e \<or>
     (embed_py (cleaned_text_spec stop_words job_description) = Inr v \<and>
      embed_py (cleaned_text_spec stop_words cv_text) = Inl e)) \<longrightarrow>
      fst (compute_similarity_score embed_py w job_description cv_text language) =
        Inl (Exception (scoring_error_message e))) \<and>
   ValueError empty_text_message \<noteq> ValueError (unsupported_language_message language) \<and>
   ValueError m \<noteq> Exception m'"
proof (intro conjI impI)
  assume "list_all is_space job_description \<or> list_all is_space cv_text"
  then show "fst (compute_similarity_score embed_py w job_description cv_text language) =
        Inl (ValueError empty_text_message)"
    by (simp add: score_blank)
next
  assume "\<not> list_all is_space job_description \<and> \<not> list_all is_space cv_text \<and>
    language \<notin> language_codes"
  then show "fst (compute_similarity_score embed_py w job_description cv_text language) =
        Inl (ValueError (unsupported_language_message language))"
    by (simp add: score_unsupported supported_languages_None_iff)
next
  assume "\<not> list_all is_space job_description \<and> \<not> list_all is_space cv_text \<and>
    language \<in> language_codes \<and> get_stopwords w language = (Inr stop_words, w') \<and>
    (embed_py (cleaned_text_spec stop_words job_description) = Inl e \<or>
     (embed_py (cleaned_text_spec stop_words job_description) = Inr v \<and>
      embed_py (cleaned_text_spec stop_words cv_text) = Inl e))"
  then show "fst (compute_similarity_score embed_py w job_description cv_text language) =
        Inl (Exception (scoring_error_message e))"
    using score_embed_fails by blast
next
  show "ValueError empty_text_message \<noteq> ValueError (unsupported_language_message language)"
    using messages_differ [of language] by simp
next
  show "ValueError m \<noteq> Exception m'" by simp
qed


theorem failures_are_distinct_errors_witness:
  "fst (compute_similarity_score failing_embed installed_world [] ''Python'' ''en'') =
     Inl (ValueError empty_text_message) \<and>
   fst (compute_similarity_score failing_embed installed_world ''Java'' ''Python'' ''xx'') =
     Inl (ValueError (unsupported_language_message ''xx'')) \<and>
   fst (compute_similarity_score failing_embed installed_world ''Java'' ''Python'' ''en'') =
     Inl (Exception (scoring_error_message (Exception ''model unavailable'')))"
proof -
  have f: "failing_embed (cleaned_text_spec {} ''Java'') = Inl (Exception ''model unavailable'')"
    by (simp add: failing_embed_def)
  have b: "list_all is_space []" by simp
  show ?thesis
    using
      failures_are_distinct_errors [of "[]" "''Python''" failing_embed installed_world "''en''"]
      failures_are_distinct_errors [of "''Java''" "''Python''" failing_embed installed_world
        "''xx''"]
      failures_are_distinct_errors [of "''Java''" "''Python''" failing_embed installed_world
        "''en''" "{}" installed_world "Exception ''model unavailable''"]
      f b example_not_blank(1,2) example_codes installed_stopwords_en
    by blast
qed


section \<open>Range and symmetry of the score\<close>





text \<open>
  The premise on the dot product is needed: the cosine is returned as it is, and two
  rows that point in opposite directions score \<open>-1\<close>. Without the premise the score
  lies between \<open>-1\<close> and 1 (lemma \<open>score_bounds\<close>).
\<close>

lemma score_below_zero:
  "fst (compute_similarity_score opposite_embed installed_world ''Python'' ''Java'' ''en'') =
     Inr (- 1)"
  by (rule score_vectors [OF example_not_blank(2,1) example_codes(2) installed_stopwords_en,
        of opposite_embed "[1]" "[- 1]"])
     (simp_all add: opposite_embed_def cleaned_examples cosine_examples)

text \<open>
  C7. Whenever the scorer succeeds on \<open>(a, b)\<close> it succeeds on \<open>(b, a)\<close> with the same
  score, from the same world and with the same provider (for every language code; a
  success implies that the code is supported).
\<close>

theorem similarity_symmetric:
  assumes "fst (compute_similarity_score embed_py w a b language) = Inr similarity"
  shows "fst (compute_similarity_score embed_py w b a language) = Inr similarity"
proof -
  note ok = score_Inr_cases [OF assms]
  obtain stop_words w' where g: "get_stopwords w language = (Inr stop_words, w')"
    using ok(4) by blast
  have "fst (embed_pair embed_py w' (cleaned_text_spec stop_words a)
               (cleaned_text_spec stop_words b)) = Inr similarity"
    using assms by (simp add: score_stopwords_fst [OF ok(1-3) g] split: sum.splits)
  then have "fst (embed_pair embed_py w' (cleaned_text_spec stop_words b)
               (cleaned_text_spec stop_words a)) = Inr similarity"
    by (rule embed_pair_swap)
  then show ?thesis
    by (simp add: score_stopwords_fst [OF ok(2,1,3) g])
qed


theorem similarity_symmetric_witness:
  "fst (compute_similarity_score axis_embed installed_world ''Python'' ''Java'' ''en'') = Inr 0 \<and>
   fst (compute_similarity_score axis_embed installed_world ''Java'' ''Python'' ''en'') = Inr 0"
proof -
  have s: "fst (compute_similarity_score axis_embed installed_world ''Python'' ''Java'' ''en'') =
             Inr 0"
    by (rule score_vectors [OF example_not_blank(2,1) example_codes(2) installed_stopwords_en,
          of axis_embed "[1, 0]" "[0, 1]"])
       (simp_all add: axis_embed_def cleaned_examples cosine_examples)
  show ?thesis using s similarity_symmetric [OF s] by simp
qed



section \<open>The stopword lookup\<close>

text \<open>
  C8. \<open>get_stopwords\<close> is documented to return the stopword set or an empty set, and it
  catches the \<open>LookupError\<close> of a missing corpus; but the second read of the corpus,
  after the download, is not guarded. When the corpus is neither installed nor
  downloadable the lookup raises, and the similarity request fails because of it.
\<close>

theorem stopwords_lookup_fails_offline:
  "get_stopwords offline_world ''en'' =
     (Inl (LookupError resource_not_found), offline_world) \<and>
   fst (compute_similarity_score zero_embed offline_world ''Java'' ''Python'' ''en'') =
     Inl (Exception (scoring_error_message (LookupError resource_not_found)))"
  using score_no_stopwords [OF example_not_blank(1,2) example_codes(2) offline_stopwords,
      of zero_embed]
  by (simp add: offline_stopwords)



section \<open>Determinism and effects\<close>

text \<open>
  C9, as stated, fails: when the stopwords corpus is not installed, a run of the scorer
  downloads and installs it, an effect that is not a call to the embedding provider.
\<close>

theorem side_effect_counterexample:
  "nltk_data fresh_world = None \<and>
   nltk_data (snd (compute_similarity_score zero_embed fresh_world ''Java'' ''Python'' ''en'')) =
     Some english_corpus"
proof -
  let ?w' = "snd (compute_similarity_score zero_embed fresh_world ''Java'' ''Python'' ''en'')"
  have "?w'\<lparr>embed_calls := []\<rparr> = (nltk_download fresh_world)\<lparr>embed_calls := []\<rparr>"
    by (rule score_world_stopwords
          [OF example_not_blank(1,2) example_codes(2) fresh_stopwords_en])
  then have "nltk_data (?w'\<lparr>embed_calls := []\<rparr>) =
               nltk_data ((nltk_download fresh_world)\<lparr>embed_calls := []\<rparr>)"
    by (rule arg_cong)
  then show ?thesis by (simp add: fresh_world_def nltk_download_def)
qed


text \<open>
  C9, amended. The embedding provider is a function, hence deterministic, and the texts
  are values that no run can change. A second run of the scorer on the same inputs,
  started in the world the first run left, gives the same result. Apart from the log of
  the embedding calls, a run leaves the world as it was, except that it may have run the
  stopwords download when the corpus was not installed.
\<close>

theorem rerun_same_result_and_effects:
  assumes "compute_similarity_score embed_py w a b language = (r, w')"
  shows "fst (compute_similarity_score embed_py w' a b language) = r \<and>
         (w'\<lparr>embed_calls := embed_calls w\<rparr> = w \<or>
          (nltk_data w = None \<and> w'\<lparr>embed_calls := embed_calls w\<rparr> = nltk_download w))"
  using rerun_lemma [OF assms] by (rule conjI)


theorem rerun_same_result_and_effects_witness:
  "fst (compute_similarity_score zero_embed
          (snd (compute_similarity_score zero_embed fresh_world ''Java'' ''Python'' ''en''))
          ''Java'' ''Python'' ''en'') =
   fst (compute_similarity_score zero_embed fresh_world ''Java'' ''Python'' ''en'')"
  using rerun_same_result_and_effects [OF surjective_pairing] by (rule conjunct1)



section \<open>The language check of the handler\<close>

text \<open>
  C10, as stated, fails for a request without the CV file: the handler answers 400 with
  the required-fields message before any score is computed, also when the language code
  is unsupported and the API key is valid.
\<close>

theorem unsupported_code_counterexample:
  "lower_py ''xx'' \<notin> language_codes \<and>
   answer (evaluate_cv_match_route example_services installed_world request_without_file) =
     required_fields_response \<and>
   required_fields_response \<noteq> internal_error_response"
proof -
  have m: "missing_fields request_without_file"
    by (simp add: missing_fields_def request_without_file_def)
  show ?thesis
    using example_codes(1) m
    by (simp add: example_suffixes example_route_passes endpoint_unfold required_fields_def
        required_fields_response_def internal_error_response_def)
qed

text \<open>
  C10, amended. The handler lowercases the language code and computes the score before
  it validates the code. Take a request that passes the API-key check and the rate
  limiter, carries a CV file and a job description, and whose CV text is extracted. If
  its language code is unsupported after lowercasing, then the scorer is called on the
  job description and the extracted text and raises \<open>ValueError\<close>, leaving the world as
  it was; the route answers with the generic 500 response, and its log ends with the
  scorer's error after the line of the extraction, with no line of the language
  validation. The 400 response of the unsupported-language branch is returned for no
  request at all.
\<close>

theorem unsupported_code_internal_error:
  assumes "header_x_api_key req = Some api_key" and "api_key \<noteq> []"
    and "API_KEY sv = Some api_key" and "\<not> limit_exceeded sv"
    and "files_cv_file req = Some f" and "filename f \<noteq> []"
    and "form_job_description req = Some jd" and "jd \<noteq> []"
    and "save_and_extract sv f = Inr cv_text"
    and "language = lower_py (case form_language req of None \<Rightarrow> ''en'' | Some l \<Rightarrow> l)"
    and "language \<notin> language_codes"
    and "e = ValueError (if list_all is_space jd \<or> list_all is_space cv_text
                         then empty_text_message
                         else unsupported_language_message language)"
  shows
    "compute_similarity_score (embed_model sv) w jd cv_text language = (Inl e, w) \<and>
     evaluate_cv_match_route sv w req =
       \<lparr>answer = internal_error_response,
        app_log = [processing_line, extracted_line, internal_error_line e],
        world_after = w\<rparr> \<and>
     answer (evaluate_cv_match_route sv' w' req') \<noteq> unsupported_language_response"
proof (intro conjI)
  show s: "compute_similarity_score (embed_model sv) w jd cv_text language = (Inl e, w)"
    unfolding assms(12) using assms(11) by (rule score_unsupported_fails)
  have "evaluate_cv_match_route sv w req = after_extract sv w jd cv_text language"
    unfolding assms(10) route_passes [OF assms(1-4)] using assms(5-9) by (rule endpoint_scores)
  then show "evaluate_cv_match_route sv w req =
       \<lparr>answer = internal_error_response,
        app_log = [processing_line, extracted_line, internal_error_line e],
        world_after = w\<rparr>"
    using after_extract_failure [OF s] by (simp add: internal_error_def)
  show "answer (evaluate_cv_match_route sv' w' req') \<noteq> unsupported_language_response"
    by (rule unsupported_branch_dead)
qed

theorem unsupported_code_internal_error_witness:
  "compute_similarity_score zero_embed installed_world ''Java'' ''Python'' ''xx'' =
     (Inl (ValueError (unsupported_language_message ''xx'')), installed_world) \<and>
   evaluate_cv_match_route example_services installed_world request_with_file =
     \<lparr>answer = internal_error_response,
      app_log = [processing_line, extracted_line,
                 internal_error_line (ValueError (unsupported_language_message ''xx''))],
      world_after = installed_world\<rparr>"
proof -
  have l: "''xx'' = lower_py (case form_language request_with_file of
                                None \<Rightarrow> ''en'' | Some l \<Rightarrow> l)"
    by (simp add: request_with_file_def example_suffixes)
  have e: "ValueError (unsupported_language_message ''xx'') =
             ValueError (if list_all is_space ''Java'' \<or> list_all is_space ''Python''
                         then empty_text_message
                         else unsupported_language_message ''xx'')"
    using example_not_blank(1,2) by (simp only: simp_thms if_False)
  have m: "embed_model example_services = zero_embed"
    by (simp add: example_services_def)
  note t = unsupported_code_internal_error
      [of request_with_file "''secret''" example_services
          "\<lparr>filename = ''cv.txt'', file_bytes = ''Python''\<rparr>" "''Java''" "''Python''" "''xx''"
          "ValueError (unsupported_language_message ''xx'')" installed_world,
       OF _ _ _ _ _ _ _ _ example_extraction(1) l example_codes(1) e]
  have "compute_similarity_score (embed_model example_services) installed_world ''Java''
          ''Python'' ''xx'' =
          (Inl (ValueError (unsupported_language_message ''xx'')), installed_world) \<and>
        evaluate_cv_match_route example_services installed_world request_with_file =
          \<lparr>answer = internal_error_response,
           app_log = [processing_line, extracted_line,
                      internal_error_line (ValueError (unsupported_language_message ''xx''))],
           world_after = installed_world\<rparr>"
    using t [of example_services installed_world request_with_file]
    by (simp add: request_with_file_def example_services_def)
  then show ?thesis by (simp only: m)
qed


end
